theory Spec2Isabelle
  imports Main "HOL-Library.Sublist" "HOL-Library.Multiset"
begin

section \<open>The etcd provisioning steps of pkg/etcd/tasks.go\<close>

text \<open>
  Every step of the source is a method \<open>Execute(runtime) error\<close> that reads and mutates a
  run-scoped store (\<open>PipelineCache\<close>), the current host's own store (\<open>host.GetCache()\<close>),
  and talks to the host through the runner. The embedding passes that state explicitly:
  a step takes the runtime and the world and returns the Go error (\<open>None\<close> is \<open>nil\<close>)
  together with the world it leaves behind. Mutations made before an error is returned
  stay in the returned world, as they do in Go.
\<close>

subsection \<open>Strings (package strings, fmt.Sprintf with %s only)\<close>

text \<open>\<open>strings.Index(s, substr)\<close>: the index of the first occurrence, or -1.\<close>

fun strings_Index :: "string \<Rightarrow> string \<Rightarrow> int" where
  "strings_Index [] substr = (if substr = [] then 0 else - 1)"
| "strings_Index (c # cs) substr =
     (if prefix substr (c # cs) then 0
      else (let i = strings_Index cs substr in if i < 0 then - 1 else i + 1))"

text \<open>\<open>strings.Contains(s, substr)\<close> is \<open>Index(s, substr) >= 0\<close>.\<close>

definition strings_Contains :: "string \<Rightarrow> string \<Rightarrow> bool" where
  "strings_Contains s substr = (strings_Index s substr \<ge> 0)"

text \<open>\<open>strings.Join(elems, sep)\<close>.\<close>

fun strings_Join :: "string list \<Rightarrow> string \<Rightarrow> string" where
  "strings_Join [] sep = []"
| "strings_Join [x] sep = x"
| "strings_Join (x # y # ys) sep = x @ sep @ strings_Join (y # ys) sep"

subsection \<open>Errors (github.com/pkg/errors)\<close>

text \<open>
  A Go \<open>error\<close> value is \<open>error option\<close>, \<open>None\<close> being \<open>nil\<close>. \<open>External\<close> stands for
  an error produced by the runner or the template engine. \<open>errors.WithStack\<close> and
  \<open>errors.Wrap\<close> of the library return \<open>nil\<close> when given \<open>nil\<close>.
\<close>

datatype error =
    New string
  | External string
  | WithMessage error string
  | WithStack error

definition errors_New :: "string \<Rightarrow> error option" where
  "errors_New message = Some (New message)"

definition errors_WithStack :: "error option \<Rightarrow> error option" where
  "errors_WithStack err = (case err of None \<Rightarrow> None | Some e \<Rightarrow> Some (WithStack e))"

definition errors_Wrap :: "error option \<Rightarrow> string \<Rightarrow> error option" where
  "errors_Wrap err message =
     (case err of None \<Rightarrow> None | Some e \<Rightarrow> Some (WithStack (WithMessage e message)))"

subsection \<open>Data\<close>

record EtcdCluster =
  clusterExist :: bool
  accessAddresses :: string
  peerAddresses :: "string list"

definition NewCluster :: string where "NewCluster = ''new''"
definition ExistCluster :: string where "ExistCluster = ''existing''"

text \<open>A host of the inventory: what \<open>GetName\<close>, \<open>GetInternalAddress\<close> and \<open>GetArch\<close> return.\<close>

record Host =
  GetName :: string
  GetInternalAddress :: string
  GetArch :: string

text \<open>
  The host's own store, at the two keys this file uses: \<open>common.ETCDName\<close> (a string) and
  \<open>common.ETCDExist\<close> (a bool). \<open>None\<close> is a key that was never set, for which
  \<open>GetMustString\<close> returns \<open>ok = false\<close>.
\<close>

record HostCache =
  ETCDName :: "string option"
  ETCDExist :: "bool option"

text \<open>The data map handed to the template engine by \<open>refreshConfig\<close>.\<close>

record TemplateData =
  dTag :: string
  dName :: string
  dIp :: string
  dHostname :: string
  dState :: string
  dPeerAddresses :: string
  dUnsupportedArch :: bool
  dArch :: string

text \<open>
  An \<open>action.Template\<close>: \<open>Dst\<close> holds the elements given to \<open>filepath.Join\<close>, not joined.
\<close>

record Template =
  Dst :: "string list"
  Data :: TemplateData

datatype Role = ETCD | Master

text \<open>What reached a host: the calls made on the runner and the templates executed.\<close>

datatype Event =
    EvFileExist Host string
  | EvSudoCmd Host string bool
  | EvTemplate Host Template

text \<open>
  The runtime of one step: the host it runs on, the inventory, and the answers of the
  external collaborators (runner and template engine) during that step. The constants
  \<open>common.BinDir\<close>, \<open>kubekeyapiv1alpha2.DefaultEtcdVersion\<close> and the name of
  \<open>templates.EtcdEnv\<close> are declared outside this file and are parameters here.
\<close>

record Runtime =
  RemoteHost :: Host
  GetHostsByRole :: "Role \<Rightarrow> Host list"
  FileExist :: "string \<Rightarrow> bool \<times> error option"
  SudoCmd :: "string \<Rightarrow> bool \<Rightarrow> string \<times> error option"
  TemplateExecute :: "Template \<Rightarrow> error option"
  BinDir :: string
  DefaultEtcdVersion :: string
  EtcdEnvName :: string

text \<open>
  The world: the entry of \<open>PipelineCache\<close> under \<open>common.ETCDCluster\<close> (\<open>None\<close> when the
  key is absent), every host's store, and the events so far.
\<close>

record World =
  pipelineCache :: "EtcdCluster option"
  hostCache :: "Host \<Rightarrow> HostCache"
  trace :: "Event list"

definition emit :: "Event \<Rightarrow> World \<Rightarrow> World" where
  "emit e w = w\<lparr>trace := trace w @ [e]\<rparr>"

definition setETCDName :: "Host \<Rightarrow> string \<Rightarrow> World \<Rightarrow> World" where
  "setETCDName h v w = w\<lparr>hostCache := (hostCache w)(h := (hostCache w h)\<lparr>ETCDName := Some v\<rparr>)\<rparr>"

definition setETCDExist :: "Host \<Rightarrow> bool \<Rightarrow> World \<Rightarrow> World" where
  "setETCDExist h v w = w\<lparr>hostCache := (hostCache w)(h := (hostCache w h)\<lparr>ETCDExist := Some v\<rparr>)\<rparr>"

definition peerURL :: "string \<Rightarrow> Host \<Rightarrow> string" where
  "peerURL etcdName host = etcdName @ ''=https://'' @ GetInternalAddress host @ '':2380''"

subsection \<open>GetStatus\<close>

definition GetStatus_Execute :: "Runtime \<Rightarrow> World \<Rightarrow> error option \<times> World" where
  "GetStatus_Execute runtime w =
     (let (exist, err) = FileExist runtime ''/etc/etcd.env'';
          host = RemoteHost runtime;
          w1 = emit (EvFileExist host ''/etc/etcd.env'') w
      in if err \<noteq> None then (err, w1)
      else
        let cluster = \<lparr>clusterExist = True, accessAddresses = '''', peerAddresses = []\<rparr>
        in if exist then
          (let (etcdEnv, err) = SudoCmd runtime ''cat /etc/etcd.env | grep ETCD_NAME'' True;
               w2 = emit (EvSudoCmd host ''cat /etc/etcd.env | grep ETCD_NAME'' True) w1
           in if err \<noteq> None then (err, w2)
           else
             let etcdName = drop (nat (strings_Index etcdEnv ''='' + 1)) etcdEnv;
                 w3 = setETCDExist host True (setETCDName host etcdName w2)
             in (case pipelineCache w3 of
                   Some c \<Rightarrow>
                     (None, w3\<lparr>pipelineCache :=
                        Some (c\<lparr>peerAddresses := peerAddresses c @ [peerURL etcdName host],
                                clusterExist := True\<rparr>)\<rparr>)
                 | None \<Rightarrow>
                     (None, w3\<lparr>pipelineCache :=
                        Some (cluster\<lparr>peerAddresses := peerAddresses cluster @ [peerURL etcdName host],
                                      clusterExist := True\<rparr>)\<rparr>)))
        else
          (let w3 = setETCDExist host False (setETCDName host (''etcd-'' @ GetName host) w1)
           in (case pipelineCache w3 of
                 Some c \<Rightarrow> (None, w3)
               | None \<Rightarrow> (None, w3\<lparr>pipelineCache := Some (cluster\<lparr>clusterExist := False\<rparr>)\<rparr>))))"

subsection \<open>generateCertsFiles\<close>

definition generateCertsFiles :: "Runtime \<Rightarrow> string list" where
  "generateCertsFiles runtime =
     (let certsList = [];
          certsList = certsList @ [''ca.pem''];
          certsList = certsList @ [''ca-key.pem''];
          certsList = foldl (\<lambda>certsList host.
              certsList @ [''admin-'' @ GetName host @ ''.pem'']
                        @ [''admin-'' @ GetName host @ ''-key.pem'']
                        @ [''member-'' @ GetName host @ ''.pem'']
                        @ [''member-'' @ GetName host @ ''-key.pem''])
            certsList (GetHostsByRole runtime ETCD);
          certsList = foldl (\<lambda>certsList host.
              certsList @ [''node-'' @ GetName host @ ''.pem'']
                        @ [''node-'' @ GetName host @ ''-key.pem''])
            certsList (GetHostsByRole runtime Master)
      in certsList)"

subsection \<open>GenerateAccessAddress\<close>

definition GenerateAccessAddress_Execute :: "Runtime \<Rightarrow> World \<Rightarrow> error option \<times> World" where
  "GenerateAccessAddress_Execute runtime w =
     (let addrList = foldl (\<lambda>addrList host.
              addrList @ [''https://'' @ GetInternalAddress host @ '':2379''])
            [] (GetHostsByRole runtime ETCD);
          accessAddresses' = strings_Join addrList '',''
      in (case pipelineCache w of
            Some cluster \<Rightarrow>
              (None, w\<lparr>pipelineCache := Some (cluster\<lparr>accessAddresses := accessAddresses'\<rparr>)\<rparr>)
          | None \<Rightarrow> (errors_New ''get etcd cluster status by pipeline cache failed'', w)))"

subsection \<open>HealthCheck\<close>

definition etcdctlEnv :: "Host \<Rightarrow> string" where
  "etcdctlEnv host =
     ''export ETCDCTL_API=2;'' @
     ''export ETCDCTL_CERT_FILE='' @ [CHR 0x27] @ ''/etc/ssl/etcd/ssl/admin-'' @ GetName host @ ''.pem'' @ [CHR 0x27] @ '';'' @
     ''export ETCDCTL_KEY_FILE='' @ [CHR 0x27] @ ''/etc/ssl/etcd/ssl/admin-'' @ GetName host @ ''-key.pem'' @ [CHR 0x27] @ '';'' @
     ''export ETCDCTL_CA_FILE='' @ [CHR 0x27] @ ''/etc/ssl/etcd/ssl/ca.pem'' @ [CHR 0x27] @ '';''"

definition checkHealthCmd :: "Runtime \<Rightarrow> EtcdCluster \<Rightarrow> string" where
  "checkHealthCmd runtime cluster =
     etcdctlEnv (RemoteHost runtime) @ BinDir runtime @ ''/etcdctl --endpoints='' @
     accessAddresses cluster @ '' cluster-health | grep -q '' @ [CHR 0x27] @
     ''cluster is healthy'' @ [CHR 0x27]"

definition healthCheck :: "Runtime \<Rightarrow> EtcdCluster \<Rightarrow> World \<Rightarrow> error option \<times> World" where
  "healthCheck runtime cluster w =
     (let host = RemoteHost runtime;
          (out, err) = SudoCmd runtime (checkHealthCmd runtime cluster) False;
          w1 = emit (EvSudoCmd host (checkHealthCmd runtime cluster) False) w
      in if err \<noteq> None then (errors_Wrap (errors_WithStack err) ''etcd health check failed'', w1)
         else (None, w1))"

definition HealthCheck_Execute :: "Runtime \<Rightarrow> World \<Rightarrow> error option \<times> World" where
  "HealthCheck_Execute runtime w =
     (case pipelineCache w of
        Some cluster \<Rightarrow>
          (let (err, w1) = healthCheck runtime cluster w
           in if err \<noteq> None then (err, w1) else (None, w1))
      | None \<Rightarrow> (errors_New ''get etcd cluster status by pipeline cache failed'', w))"

subsection \<open>GenerateConfig, RefreshConfig\<close>

definition refreshConfig ::
  "Runtime \<Rightarrow> string list \<Rightarrow> string \<Rightarrow> string \<Rightarrow> World \<Rightarrow> error option \<times> World" where
  "refreshConfig runtime endpoints state etcdName w =
     (let host = RemoteHost runtime;
          UnsupportedArch = False;
          UnsupportedArch = (if GetArch host \<noteq> ''amd64'' then True else UnsupportedArch);
          templateAction = \<lparr>
            Dst = [''/etc/'', EtcdEnvName runtime],
            Data = \<lparr>
              dTag = DefaultEtcdVersion runtime,
              dName = etcdName,
              dIp = GetInternalAddress host,
              dHostname = GetName host,
              dState = state,
              dPeerAddresses = strings_Join endpoints '','',
              dUnsupportedArch = UnsupportedArch,
              dArch = GetArch host\<rparr>\<rparr>;
          err = TemplateExecute runtime templateAction;
          w1 = emit (EvTemplate host templateAction) w
      in if err \<noteq> None then (err, w1) else (None, w1))"

definition GenerateConfig_Execute :: "Runtime \<Rightarrow> World \<Rightarrow> error option \<times> World" where
  "GenerateConfig_Execute runtime w =
     (let host = RemoteHost runtime
      in case ETCDName (hostCache w host) of
           None \<Rightarrow> (errors_New ''get etcd node status by host label failed'', w)
         | Some etcdName \<Rightarrow>
             (case pipelineCache w of
                Some c \<Rightarrow>
                  (let cluster = c\<lparr>peerAddresses := peerAddresses c @ [peerURL etcdName host]\<rparr>;
                       w1 = w\<lparr>pipelineCache := Some cluster\<rparr>
                   in if \<not> clusterExist cluster
                      then refreshConfig runtime (peerAddresses cluster) NewCluster etcdName w1
                      else refreshConfig runtime (peerAddresses cluster) ExistCluster etcdName w1)
              | None \<Rightarrow> (errors_New ''get etcd cluster status by pipeline cache failed'', w)))"

definition RefreshConfig_Execute :: "bool \<Rightarrow> Runtime \<Rightarrow> World \<Rightarrow> error option \<times> World" where
  "RefreshConfig_Execute ToExisting runtime w =
     (let host = RemoteHost runtime
      in case ETCDName (hostCache w host) of
           None \<Rightarrow> (errors_New ''get etcd node status by host label failed'', w)
         | Some etcdName \<Rightarrow>
             (case pipelineCache w of
                Some cluster \<Rightarrow>
                  (if ToExisting
                   then refreshConfig runtime (peerAddresses cluster) ExistCluster etcdName w
                   else if \<not> clusterExist cluster
                   then refreshConfig runtime (peerAddresses cluster) NewCluster etcdName w
                   else refreshConfig runtime (peerAddresses cluster) ExistCluster etcdName w)
              | None \<Rightarrow> (errors_New ''get etcd cluster status by pipeline cache failed'', w)))"

subsection \<open>JoinMember, CheckMember\<close>

definition joinMemberCmd :: "Runtime \<Rightarrow> EtcdCluster \<Rightarrow> string \<Rightarrow> string" where
  "joinMemberCmd runtime cluster etcdName =
     etcdctlEnv (RemoteHost runtime) @ BinDir runtime @ ''/etcdctl --endpoints='' @
     accessAddresses cluster @ '' member add '' @ etcdName @ '' '' @
     (''https://'' @ GetInternalAddress (RemoteHost runtime) @ '':2380'')"

definition JoinMember_Execute :: "Runtime \<Rightarrow> World \<Rightarrow> error option \<times> World" where
  "JoinMember_Execute runtime w =
     (let host = RemoteHost runtime
      in case ETCDName (hostCache w host) of
           None \<Rightarrow> (errors_New ''get etcd node status by host label failed'', w)
         | Some etcdName \<Rightarrow>
             (case pipelineCache w of
                Some cluster \<Rightarrow>
                  (let (out, err) = SudoCmd runtime (joinMemberCmd runtime cluster etcdName) True;
                       w1 = emit (EvSudoCmd host (joinMemberCmd runtime cluster etcdName) True) w
                   in if err \<noteq> None
                      then (errors_Wrap (errors_WithStack err) ''add etcd member failed'', w1)
                      else (None, w1))
              | None \<Rightarrow> (errors_New ''get etcd cluster status by pipeline cache failed'', w)))"

definition checkMemberCmd :: "Runtime \<Rightarrow> EtcdCluster \<Rightarrow> string" where
  "checkMemberCmd runtime cluster =
     etcdctlEnv (RemoteHost runtime) @ BinDir runtime @
     ''/etcdctl --no-sync --endpoints='' @ accessAddresses cluster @ '' member list''"

definition CheckMember_Execute :: "Runtime \<Rightarrow> World \<Rightarrow> error option \<times> World" where
  "CheckMember_Execute runtime w =
     (let host = RemoteHost runtime
      in case pipelineCache w of
           Some cluster \<Rightarrow>
             (let (memberList, err) = SudoCmd runtime (checkMemberCmd runtime cluster) True;
                  w1 = emit (EvSudoCmd host (checkMemberCmd runtime cluster) True) w
              in if err \<noteq> None
                 then (errors_Wrap (errors_WithStack err) ''list etcd member failed'', w1)
                 else if \<not> strings_Contains memberList
                            (''https://'' @ GetInternalAddress host @ '':2379'')
                 then (errors_Wrap (errors_WithStack err) ''add etcd member failed'', w1)
                 else (None, w1))
         | None \<Rightarrow> (errors_New ''get etcd cluster status by pipeline cache failed'', w))"

subsection \<open>Sequences of steps\<close>

datatype Step =
    GetStatus
  | GenerateAccessAddress
  | HealthCheck
  | GenerateConfig
  | RefreshConfig bool
  | JoinMember
  | CheckMember

fun Execute :: "Step \<Rightarrow> Runtime \<Rightarrow> World \<Rightarrow> error option \<times> World" where
  "Execute GetStatus = GetStatus_Execute"
| "Execute GenerateAccessAddress = GenerateAccessAddress_Execute"
| "Execute HealthCheck = HealthCheck_Execute"
| "Execute GenerateConfig = GenerateConfig_Execute"
| "Execute (RefreshConfig ToExisting) = RefreshConfig_Execute ToExisting"
| "Execute JoinMember = JoinMember_Execute"
| "Execute CheckMember = CheckMember_Execute"

text \<open>
  A run dispatches steps one after the other, each with its own runtime. \<open>run\<close> gives the
  world after all of them, whatever they returned; the world in which a pipeline that
  stops at the first error finds itself is the world after a shorter run.
\<close>

fun run :: "(Step \<times> Runtime) list \<Rightarrow> World \<Rightarrow> World" where
  "run [] w = w"
| "run ((s, runtime) # rest) w = run rest (snd (Execute s runtime w))"

definition peers :: "World \<Rightarrow> string list" where
  "peers w = (case pipelineCache w of None \<Rightarrow> [] | Some c \<Rightarrow> peerAddresses c)"

subsection \<open>Sample inputs\<close>

definition mkHost :: "string \<Rightarrow> string \<Rightarrow> Host" where
  "mkHost name addr = \<lparr>GetName = name, GetInternalAddress = addr, GetArch = ''amd64''\<rparr>"

definition node1 :: Host where "node1 = mkHost ''node1'' ''10.0.0.1''"
definition node2 :: Host where "node2 = mkHost ''node2'' ''10.0.0.2''"
definition node3 :: Host where "node3 = mkHost ''node3'' ''10.0.0.3''"

text \<open>
  A runtime on host \<open>h\<close> whose marker file is present or not (\<open>marker\<close>), whose commands
  all succeed and print \<open>out\<close>, and whose template engine succeeds.
\<close>

definition sampleRuntime :: "Host \<Rightarrow> bool \<Rightarrow> string \<Rightarrow> Runtime" where
  "sampleRuntime h marker out =
     \<lparr>RemoteHost = h,
      GetHostsByRole = (\<lambda>r. case r of ETCD \<Rightarrow> [node1, node2] | Master \<Rightarrow> [node3]),
      FileExist = (\<lambda>p. (marker, None)),
      SudoCmd = (\<lambda>c p. (out, None)),
      TemplateExecute = (\<lambda>t. None),
      BinDir = ''/usr/local/bin'',
      DefaultEtcdVersion = ''v3.4.13'',
      EtcdEnvName = ''etcd.env''\<rparr>"

text \<open>A runtime on host \<open>h\<close> where every call on the runner and the template engine fails.\<close>

definition failingRuntime :: "Host \<Rightarrow> Runtime" where
  "failingRuntime h =
     \<lparr>RemoteHost = h,
      GetHostsByRole = (\<lambda>r. case r of ETCD \<Rightarrow> [node1, node2] | Master \<Rightarrow> [node3]),
      FileExist = (\<lambda>p. (False, Some (External ''connection lost''))),
      SudoCmd = (\<lambda>c p. ([], Some (External ''exit status 1''))),
      TemplateExecute = (\<lambda>t. Some (External ''template failed'')),
      BinDir = ''/usr/local/bin'',
      DefaultEtcdVersion = ''v3.4.13'',
      EtcdEnvName = ''etcd.env''\<rparr>"

definition emptyWorld :: World where
  "emptyWorld = \<lparr>pipelineCache = None,
                 hostCache = (\<lambda>h. \<lparr>ETCDName = None, ETCDExist = None\<rparr>),
                 trace = []\<rparr>"

definition stateWorld :: "EtcdCluster \<Rightarrow> World" where
  "stateWorld c = emptyWorld\<lparr>pipelineCache := Some c\<rparr>"

text \<open>An output of \<open>etcdctl member list\<close> that shows node1 only.\<close>

definition memberListOutput :: string where
  "memberListOutput = ''8e9e05c52164694d: name=etcd-node1 peerURLs=https://10.0.0.1:2380 clientURLs=https://10.0.0.1:2379 isLeader=true''"

subsection \<open>Observations on worlds and runs\<close>

text \<open>The cluster-existence flag as a later step observes it.\<close>

definition existsFlag :: "World \<Rightarrow> bool" where
  "existsFlag w = (case pipelineCache w of None \<Rightarrow> False | Some c \<Rightarrow> clusterExist c)"

definition isTemplate :: "Event \<Rightarrow> bool" where
  "isTemplate e = (case e of EvTemplate h t \<Rightarrow> True | _ \<Rightarrow> False)"

text \<open>A run made of RefreshConfig steps only, each with its own flag and runtime.\<close>

definition refreshSteps :: "(bool \<times> Runtime) list \<Rightarrow> (Step \<times> Runtime) list" where
  "refreshSteps brs = map (\<lambda>(ToExisting, runtime). (RefreshConfig ToExisting, runtime)) brs"

text \<open>The template data of the templates executed in a trace, in order.\<close>

definition rendered :: "Event list \<Rightarrow> TemplateData list" where
  "rendered evs = concat (map (\<lambda>e. case e of EvTemplate h t \<Rightarrow> [Data t] | _ \<Rightarrow> []) evs)"

subsection \<open>The probe and the two phases of aggregation\<close>

text \<open>
  What a runtime answers to the probe of GetStatus: whether the marker file exists, whether
  the probe (and the read, when the marker exists) succeeds, and the member name GetStatus
  records for the host.
\<close>

definition markerPresent :: "Runtime \<Rightarrow> bool" where
  "markerPresent runtime = fst (FileExist runtime ''/etc/etcd.env'')"

definition probeOK :: "Runtime \<Rightarrow> bool" where
  "probeOK runtime =
     (snd (FileExist runtime ''/etc/etcd.env'') = None \<and>
      (if markerPresent runtime
       then snd (SudoCmd runtime ''cat /etc/etcd.env | grep ETCD_NAME'' True) = None
       else True))"

definition probedName :: "Runtime \<Rightarrow> string" where
  "probedName runtime =
     (if markerPresent runtime
      then (let etcdEnv = fst (SudoCmd runtime ''cat /etc/etcd.env | grep ETCD_NAME'' True)
            in drop (nat (strings_Index etcdEnv ''='' + 1)) etcdEnv)
      else ''etcd-'' @ GetName (RemoteHost runtime))"

definition probedCache :: "Runtime \<Rightarrow> HostCache" where
  "probedCache runtime =
     \<lparr>ETCDName = Some (probedName runtime), ETCDExist = Some (markerPresent runtime)\<rparr>"

text \<open>The peer entry of a host under its recorded name, and the name part of an entry.\<close>

definition entryOf :: "Runtime \<Rightarrow> string" where
  "entryOf runtime = peerURL (probedName runtime) (RemoteHost runtime)"

definition memberName :: "string \<Rightarrow> string" where
  "memberName entry = takeWhile (\<lambda>c. c \<noteq> CHR ''='') entry"

text \<open>GetStatus on every host of \<open>ps\<close>, then GenerateConfig on every host of \<open>cs\<close>.\<close>

definition twoPhase :: "Runtime list \<Rightarrow> Runtime list \<Rightarrow> (Step \<times> Runtime) list" where
  "twoPhase ps cs = map (Pair GetStatus) ps @ map (Pair GenerateConfig) cs"

subsection \<open>The certificate file set as the specification words it\<close>

definition specMemberFiles :: "string \<Rightarrow> string set" where
  "specMemberFiles name = {''admin-'' @ name @ ''.pem'', ''admin-'' @ name @ ''-key.pem'',
                           ''member-'' @ name @ ''.pem'', ''member-'' @ name @ ''-key.pem''}"

definition specNodeFiles :: "string \<Rightarrow> string set" where
  "specNodeFiles name = {''node-'' @ name @ ''.pem'', ''node-'' @ name @ ''-key.pem''}"

definition specDerive :: "string list \<Rightarrow> string list \<Rightarrow> string set" where
  "specDerive memberRoleNames controlPlaneRoleNames =
     {''ca.pem'', ''ca-key.pem''} \<union> \<Union> (specMemberFiles ` set memberRoleNames)
       \<union> \<Union> (specNodeFiles ` set controlPlaneRoleNames)"

text \<open>The files the two loops of \<open>generateCertsFiles\<close> append for one host.\<close>

definition memberCerts :: "Host \<Rightarrow> string list" where
  "memberCerts host = [''admin-'' @ GetName host @ ''.pem'', ''admin-'' @ GetName host @ ''-key.pem'',
                       ''member-'' @ GetName host @ ''.pem'', ''member-'' @ GetName host @ ''-key.pem'']"

definition nodeCerts :: "Host \<Rightarrow> string list" where
  "nodeCerts host = [''node-'' @ GetName host @ ''.pem'', ''node-'' @ GetName host @ ''-key.pem'']"

subsection \<open>More sample inputs\<close>

text \<open>A runtime whose inventory has the given member-role and control-plane-role hosts.\<close>

definition inventoryRuntime :: "Host list \<Rightarrow> Host list \<Rightarrow> Runtime" where
  "inventoryRuntime members controlPlanes =
     (sampleRuntime node1 False [])\<lparr>GetHostsByRole :=
        (\<lambda>r. case r of ETCD \<Rightarrow> members | Master \<Rightarrow> controlPlanes)\<rparr>"

definition node1key :: Host where "node1key = mkHost ''node1-key'' ''10.0.0.4''"

text \<open>node1 was found running; node2 and node3 were not.\<close>

definition runningNode1 :: Runtime where
  "runningNode1 = sampleRuntime node1 True ''ETCD_NAME=etcd-node1''"

definition freshNode2 :: Runtime where
  "freshNode2 = sampleRuntime node2 False []"

definition freshNode3 :: Runtime where
  "freshNode3 = sampleRuntime node3 False []"

text \<open>A runtime on node1 whose marker file exists and cannot be read.\<close>

definition unreadableNode1 :: Runtime where
  "unreadableNode1 =
     (sampleRuntime node1 True [])\<lparr>SudoCmd := (\<lambda>c p. ([], Some (External ''exit status 1'')))\<rparr>"

text \<open>
  The world in which node2 is configured as a founder: its identity is recorded, no
  cluster was found, and node1 is in the peer list.
\<close>

definition foundingState :: EtcdCluster where
  "foundingState = \<lparr>clusterExist = False, accessAddresses = [],
                     peerAddresses = [''etcd-node1=https://10.0.0.1:2380'']\<rparr>"

definition foundingWorld :: World where
  "foundingWorld = setETCDName node2 ''etcd-node2'' (stateWorld foundingState)"

definition noAddressState :: EtcdCluster where
  "noAddressState = \<lparr>clusterExist = True, accessAddresses = [], peerAddresses = []\<rparr>"

section \<open>Properties\<close>

lemmas step_defs = GetStatus_Execute_def GenerateAccessAddress_Execute_def HealthCheck_Execute_def
  healthCheck_def GenerateConfig_Execute_def RefreshConfig_Execute_def refreshConfig_def
  JoinMember_Execute_def CheckMember_Execute_def emit_def setETCDName_def setETCDExist_def
  errors_New_def errors_Wrap_def errors_WithStack_def

lemmas sample_defs = sampleRuntime_def failingRuntime_def emptyWorld_def node1_def node2_def
  node3_def mkHost_def stateWorld_def inventoryRuntime_def node1key_def runningNode1_def
  freshNode2_def freshNode3_def unreadableNode1_def foundingState_def foundingWorld_def
  noAddressState_def

lemma run_append: "run (xs @ ys) w = run ys (run xs w)"
  by (induction xs arbitrary: w) auto

subsection \<open>The existence flag\<close>

lemma Execute_existsFlag: "existsFlag w \<Longrightarrow> existsFlag (snd (Execute s runtime w))"
  by (cases s) (auto simp: existsFlag_def step_defs Let_def split: option.splits prod.splits)

lemma run_existsFlag: "existsFlag w \<Longrightarrow> existsFlag (run steps w)"
  by (induction steps arbitrary: w) (auto simp: Execute_existsFlag)

text \<open>
  Claim C2. Once the shared state's \<open>clusterExist\<close> is true, at any point of a run, it is true
  after every continuation of the run. The steps of the continuation are arbitrary, each
  with its own host and its own answers of the runner: GetStatus, GenerateAccessAddress,
  GenerateConfig and RefreshConfig as the claim lists them, and HealthCheck, JoinMember and
  CheckMember as well. The entry is never removed from the store either.
\<close>

theorem clusterExist_monotone:
  assumes "existsFlag (run before w)"
  shows "existsFlag (run (before @ after) w)"
  using assms by (simp add: run_append run_existsFlag)

theorem clusterExist_monotone_witness:
  "existsFlag (run [(GetStatus, sampleRuntime node1 True ''ETCD_NAME=etcd-node1'')] emptyWorld) \<and>
   existsFlag (run ([(GetStatus, sampleRuntime node1 True ''ETCD_NAME=etcd-node1'')] @
     [(GetStatus, sampleRuntime node2 False []), (GenerateAccessAddress, sampleRuntime node2 False []),
      (GenerateConfig, sampleRuntime node2 False []), (RefreshConfig False, sampleRuntime node2 False [])])
     emptyWorld)"
proof -
  have h: "existsFlag (run [(GetStatus, sampleRuntime node1 True ''ETCD_NAME=etcd-node1'')] emptyWorld)"
    by code_simp
  from clusterExist_monotone [OF h] h show ?thesis by blast
qed

subsection \<open>Membership verification\<close>

text \<open>
  Whenever the shared state is present and the list command succeeds, CheckMember returns
  \<open>nil\<close>, whatever the command printed: in the branch taken when the endpoint is absent,
  \<open>err\<close> is the \<open>nil\<close> error of the command, and wrapping \<open>nil\<close> gives \<open>nil\<close>.
\<close>

lemma CheckMember_list_succeeds:
  assumes "pipelineCache w = Some c"
    and "snd (SudoCmd runtime (checkMemberCmd runtime c) True) = None"
  shows "fst (CheckMember_Execute runtime w) = None"
  using assms
  by (auto simp: CheckMember_Execute_def Let_def errors_Wrap_def errors_WithStack_def
      split: prod.splits)

text \<open>
  Claim C3. CheckMember must return an error when the member list does not contain the
  host's client endpoint. On node2 (10.0.0.2), with the shared state present and a member
  list that shows node1 only, the endpoint \<open>https://10.0.0.2:2379\<close> is absent from the
  output and the step returns \<open>nil\<close>.
\<close>

theorem CheckMember_absent_endpoint_returns_nil:
  "\<not> strings_Contains memberListOutput (''https://'' @ GetInternalAddress node2 @ '':2379'') \<and>
   fst (CheckMember_Execute (sampleRuntime node2 False memberListOutput)
      (stateWorld \<lparr>clusterExist = True, accessAddresses = ''https://10.0.0.1:2379'',
         peerAddresses = []\<rparr>)) = None"
  by code_simp

subsection \<open>Missing shared state\<close>

text \<open>
  Claim C7. With no entry for the cluster state in the store, each of GenerateAccessAddress,
  HealthCheck, GenerateConfig, RefreshConfig (either flag), JoinMember and CheckMember
  returns an error and leaves the world as it was: no command is issued and no template
  is executed (the trace is unchanged), so no token is rendered at all.
\<close>

theorem missing_state_aborts:
  assumes "pipelineCache w = None" and "s \<noteq> GetStatus"
  shows "fst (Execute s runtime w) \<noteq> None \<and> snd (Execute s runtime w) = w \<and>
         trace (snd (Execute s runtime w)) = trace w"
  using assms by (cases s) (auto simp: step_defs Let_def split: option.splits)

theorem missing_state_aborts_witness:
  "pipelineCache (setETCDName node1 ''etcd-node1'' emptyWorld) = None \<and>
   GenerateConfig \<noteq> GetStatus \<and>
   fst (Execute GenerateConfig (sampleRuntime node1 False [])
          (setETCDName node1 ''etcd-node1'' emptyWorld))
     = Some (New ''get etcd cluster status by pipeline cache failed'') \<and>
   trace (snd (Execute GenerateConfig (sampleRuntime node1 False [])
          (setETCDName node1 ''etcd-node1'' emptyWorld))) = []"
proof -
  have h: "pipelineCache (setETCDName node1 ''etcd-node1'' emptyWorld) = None"
    by (simp add: setETCDName_def emptyWorld_def)
  have d: "GenerateConfig \<noteq> GetStatus" by simp
  have e: "fst (Execute GenerateConfig (sampleRuntime node1 False [])
          (setETCDName node1 ''etcd-node1'' emptyWorld))
     = Some (New ''get etcd cluster status by pipeline cache failed'')"
    by (simp add: step_defs sample_defs)
  from missing_state_aborts [OF h d, of "sampleRuntime node1 False []"] h d e
  show ?thesis by (simp add: emptyWorld_def setETCDName_def)
qed

subsection \<open>RefreshConfig and the shared state\<close>

lemma RefreshConfig_frame1:
  "pipelineCache (snd (RefreshConfig_Execute b runtime w)) = pipelineCache w \<and>
   hostCache (snd (RefreshConfig_Execute b runtime w)) = hostCache w \<and>
   (\<exists>evs. trace (snd (RefreshConfig_Execute b runtime w)) = trace w @ evs \<and>
      list_all isTemplate evs \<and> length evs \<le> 1)"
  by (auto simp: step_defs Let_def isTemplate_def split: option.splits)

text \<open>
  Claim C10. A run of any number of RefreshConfig steps, on any hosts and with any values
  of \<open>ToExisting\<close>, leaves the shared cluster state as it was (\<open>clusterExist\<close>,
  \<open>accessAddresses\<close> and \<open>peerAddresses\<close>, so the peer list does not grow) and leaves every
  host's store as it was; all it adds to the world are template executions, at most one
  per step.
\<close>

theorem RefreshConfig_frame:
  "pipelineCache (run (refreshSteps brs) w) = pipelineCache w \<and>
   hostCache (run (refreshSteps brs) w) = hostCache w \<and>
   peers (run (refreshSteps brs) w) = peers w \<and>
   (\<exists>evs. trace (run (refreshSteps brs) w) = trace w @ evs \<and>
      list_all isTemplate evs \<and> length evs \<le> length brs)"
proof (induction brs arbitrary: w)
  case Nil
  show ?case by (simp add: refreshSteps_def)
next
  case (Cons br brs)
  obtain b runtime where br: "br = (b, runtime)" by (cases br)
  let ?w1 = "snd (RefreshConfig_Execute b runtime w)"
  have r: "run (refreshSteps (br # brs)) w = run (refreshSteps brs) ?w1"
    by (simp add: refreshSteps_def br)
  from RefreshConfig_frame1 [of b runtime w] obtain e1 where
    p1: "pipelineCache ?w1 = pipelineCache w" and h1: "hostCache ?w1 = hostCache w" and
    t1: "trace ?w1 = trace w @ e1" "list_all isTemplate e1" "length e1 \<le> 1" by blast
  from Cons.IH [of ?w1] obtain e2 where
    p2: "pipelineCache (run (refreshSteps brs) ?w1) = pipelineCache ?w1" and
    h2: "hostCache (run (refreshSteps brs) ?w1) = hostCache ?w1" and
    t2: "trace (run (refreshSteps brs) ?w1) = trace ?w1 @ e2" "list_all isTemplate e2"
        "length e2 \<le> length brs" by blast
  have "trace (run (refreshSteps brs) ?w1) = trace w @ (e1 @ e2) \<and>
        list_all isTemplate (e1 @ e2) \<and> length (e1 @ e2) \<le> length (br # brs)"
    using t1 t2 by simp
  then show ?case unfolding r using p1 p2 h1 h2 by (auto simp: peers_def simp del: append_assoc)
qed

theorem RefreshConfig_frame_witness:
  "pipelineCache (run (refreshSteps [(True, sampleRuntime node1 False []),
       (False, sampleRuntime node1 False []), (True, sampleRuntime node1 False [])])
     (setETCDName node1 ''etcd-node1''
        (stateWorld \<lparr>clusterExist = False, accessAddresses = [],
           peerAddresses = [''etcd-node1=https://10.0.0.1:2380'']\<rparr>)))
   = Some \<lparr>clusterExist = False, accessAddresses = [],
           peerAddresses = [''etcd-node1=https://10.0.0.1:2380'']\<rparr>"
  using RefreshConfig_frame [of "[(True, sampleRuntime node1 False []),
       (False, sampleRuntime node1 False []), (True, sampleRuntime node1 False [])]"
     "setETCDName node1 ''etcd-node1''
        (stateWorld \<lparr>clusterExist = False, accessAddresses = [],
           peerAddresses = [''etcd-node1=https://10.0.0.1:2380'']\<rparr>)"]
  by (simp add: setETCDName_def stateWorld_def emptyWorld_def)

subsection \<open>Rendering the startup configuration\<close>

text \<open>
  Claim C4. When the host has its identity and the shared state is present, GenerateConfig
  executes exactly one template. Its token is "new" when \<open>clusterExist\<close> of the shared
  state is false at that time and "existing" otherwise (GenerateConfig does not change the
  flag), and its \<open>peerAddresses\<close> value is the comma-join of the whole peer list as it is
  at that time: the list found in the store followed by the entry of this host.
\<close>

theorem GenerateConfig_renders:
  assumes "ETCDName (hostCache w (RemoteHost runtime)) = Some etcdName"
    and "pipelineCache w = Some c"
  shows "\<exists>t. trace (snd (GenerateConfig_Execute runtime w)) =
            trace w @ [EvTemplate (RemoteHost runtime) t] \<and>
     dState (Data t) =
       (if existsFlag (snd (GenerateConfig_Execute runtime w)) then ''existing'' else ''new'') \<and>
     existsFlag (snd (GenerateConfig_Execute runtime w)) = clusterExist c \<and>
     dPeerAddresses (Data t) = strings_Join (peers (snd (GenerateConfig_Execute runtime w))) '','' \<and>
     peers (snd (GenerateConfig_Execute runtime w)) =
       peerAddresses c @ [peerURL etcdName (RemoteHost runtime)] \<and>
     dName (Data t) = etcdName"
  using assms
  by (auto simp: GenerateConfig_Execute_def refreshConfig_def emit_def Let_def existsFlag_def
       peers_def NewCluster_def ExistCluster_def)

theorem GenerateConfig_renders_witness:
  "ETCDName (hostCache foundingWorld (RemoteHost freshNode2)) = Some ''etcd-node2'' \<and>
   pipelineCache foundingWorld = Some foundingState \<and>
   map dState (rendered (trace (snd (GenerateConfig_Execute freshNode2 foundingWorld)))) = [''new''] \<and>
   map dPeerAddresses (rendered (trace (snd (GenerateConfig_Execute freshNode2 foundingWorld)))) =
     [''etcd-node1=https://10.0.0.1:2380,etcd-node2=https://10.0.0.2:2380''] \<and>
   peers (snd (GenerateConfig_Execute freshNode2 foundingWorld)) =
     [''etcd-node1=https://10.0.0.1:2380'', ''etcd-node2=https://10.0.0.2:2380'']"
proof -
  have h1: "ETCDName (hostCache foundingWorld (RemoteHost freshNode2)) = Some ''etcd-node2''"
    by (simp add: sample_defs setETCDName_def)
  have h2: "pipelineCache foundingWorld = Some foundingState"
    by (simp add: foundingWorld_def stateWorld_def setETCDName_def)
  have t0: "trace foundingWorld = []"
    by (simp add: foundingWorld_def stateWorld_def emptyWorld_def setETCDName_def)
  from GenerateConfig_renders [OF h1 h2] obtain t where
    tr: "trace (snd (GenerateConfig_Execute freshNode2 foundingWorld)) =
           trace foundingWorld @ [EvTemplate (RemoteHost freshNode2) t]" and
    st: "dState (Data t) =
           (if existsFlag (snd (GenerateConfig_Execute freshNode2 foundingWorld))
            then ''existing'' else ''new'')" and
    ex: "existsFlag (snd (GenerateConfig_Execute freshNode2 foundingWorld)) = clusterExist foundingState" and
    pa: "dPeerAddresses (Data t) =
           strings_Join (peers (snd (GenerateConfig_Execute freshNode2 foundingWorld))) '',''" and
    pe: "peers (snd (GenerateConfig_Execute freshNode2 foundingWorld)) =
           peerAddresses foundingState @ [peerURL ''etcd-node2'' (RemoteHost freshNode2)]"
    by blast
  have pe': "peers (snd (GenerateConfig_Execute freshNode2 foundingWorld)) =
     [''etcd-node1=https://10.0.0.1:2380'', ''etcd-node2=https://10.0.0.2:2380'']"
    unfolding pe by (simp add: foundingState_def peerURL_def freshNode2_def sampleRuntime_def
        node2_def mkHost_def)
  have st': "dState (Data t) = ''new''"
    unfolding st ex by (simp add: foundingState_def)
  have pa': "dPeerAddresses (Data t) =
      ''etcd-node1=https://10.0.0.1:2380,etcd-node2=https://10.0.0.2:2380''"
    unfolding pa pe' by simp
  show ?thesis using h1 h2 pe' st' pa' by (simp add: tr t0 rendered_def)
qed

text \<open>
  Claim C5. Every template RefreshConfig executes with \<open>ToExisting\<close> set carries the token
  "existing"; and when the host has its identity and the shared state is present it
  executes exactly one, with that token, whatever \<open>clusterExist\<close> says and whatever was
  rendered before.
\<close>

theorem RefreshConfig_ToExisting:
  "set (map dState (rendered (drop (length (trace w))
      (trace (snd (RefreshConfig_Execute True runtime w)))))) \<subseteq> {''existing''} \<and>
   (ETCDName (hostCache w (RemoteHost runtime)) = Some etcdName \<and> pipelineCache w = Some c \<longrightarrow>
     (\<exists>t. trace (snd (RefreshConfig_Execute True runtime w)) =
            trace w @ [EvTemplate (RemoteHost runtime) t] \<and>
        dState (Data t) = ''existing'' \<and>
        dPeerAddresses (Data t) = strings_Join (peerAddresses c) '','' \<and>
        dName (Data t) = etcdName))"
  by (auto simp: RefreshConfig_Execute_def refreshConfig_def emit_def Let_def errors_New_def
       rendered_def ExistCluster_def split: option.splits)

theorem RefreshConfig_ToExisting_witness:
  "ETCDName (hostCache foundingWorld (RemoteHost freshNode2)) = Some ''etcd-node2'' \<and>
   pipelineCache foundingWorld = Some foundingState \<and>
   clusterExist foundingState = False \<and>
   map dState (rendered (trace (snd (RefreshConfig_Execute True freshNode2 foundingWorld)))) =
     [''existing'']"
proof -
  have h1: "ETCDName (hostCache foundingWorld (RemoteHost freshNode2)) = Some ''etcd-node2''"
    by (simp add: sample_defs setETCDName_def)
  have h2: "pipelineCache foundingWorld = Some foundingState"
    by (simp add: foundingWorld_def stateWorld_def setETCDName_def)
  have t0: "trace foundingWorld = []"
    by (simp add: foundingWorld_def stateWorld_def emptyWorld_def setETCDName_def)
  from RefreshConfig_ToExisting [of foundingWorld freshNode2 "''etcd-node2''" foundingState] h1 h2
  obtain t where
    tr: "trace (snd (RefreshConfig_Execute True freshNode2 foundingWorld)) =
           trace foundingWorld @ [EvTemplate (RemoteHost freshNode2) t]" and
    st: "dState (Data t) = ''existing''"
    by blast
  show ?thesis using h1 h2 st by (simp add: tr t0 rendered_def foundingState_def)
qed

subsection \<open>The probe\<close>

lemma strings_Index_key:
  "CHR ''='' \<notin> set key \<Longrightarrow> strings_Index (key @ ''='' @ v) ''='' = int (length key)"
  by (induction key) (auto simp: Let_def)

lemma etcdName_of_line:
  assumes "CHR ''='' \<notin> set key"
  shows "drop (nat (strings_Index (key @ ''='' @ v) ''='' + 1)) (key @ ''='' @ v) = v"
proof -
  have "nat (strings_Index (key @ ''='' @ v) ''='' + 1) = Suc (length key)"
    using strings_Index_key [OF assms, of v] by simp
  then show ?thesis by simp
qed

lemma GetStatus_marker_present:
  assumes "FileExist runtime ''/etc/etcd.env'' = (True, None)"
    and "SudoCmd runtime ''cat /etc/etcd.env | grep ETCD_NAME'' True = (out, None)"
  shows "fst (GetStatus_Execute runtime w) = None \<and>
     hostCache (snd (GetStatus_Execute runtime w)) (RemoteHost runtime) =
       \<lparr>ETCDName = Some (drop (nat (strings_Index out ''='' + 1)) out), ETCDExist = Some True\<rparr>"
  using assms
  by (auto simp: GetStatus_Execute_def emit_def setETCDName_def setETCDExist_def Let_def
      split: option.splits)

lemma GetStatus_marker_absent:
  assumes "FileExist runtime ''/etc/etcd.env'' = (False, None)"
  shows "fst (GetStatus_Execute runtime w) = None \<and>
     hostCache (snd (GetStatus_Execute runtime w)) (RemoteHost runtime) =
       \<lparr>ETCDName = Some (''etcd-'' @ GetName (RemoteHost runtime)), ETCDExist = Some False\<rparr>"
  using assms
  by (auto simp: GetStatus_Execute_def emit_def setETCDName_def setETCDExist_def Let_def
      split: option.splits)

lemma GetStatus_probe_fails:
  assumes "FileExist runtime ''/etc/etcd.env'' = (b, Some e)"
  shows "fst (GetStatus_Execute runtime w) = Some e \<and>
     hostCache (snd (GetStatus_Execute runtime w)) = hostCache w \<and>
     pipelineCache (snd (GetStatus_Execute runtime w)) = pipelineCache w"
  using assms by (auto simp: GetStatus_Execute_def emit_def Let_def)

lemma GetStatus_read_fails:
  assumes "FileExist runtime ''/etc/etcd.env'' = (True, None)"
    and "SudoCmd runtime ''cat /etc/etcd.env | grep ETCD_NAME'' True = (out, Some e)"
  shows "fst (GetStatus_Execute runtime w) = Some e \<and>
     hostCache (snd (GetStatus_Execute runtime w)) = hostCache w \<and>
     pipelineCache (snd (GetStatus_Execute runtime w)) = pipelineCache w"
  using assms by (auto simp: GetStatus_Execute_def emit_def Let_def)

text \<open>
  Claim C8. GetStatus on a host: when the marker file exists and the read succeeds with a
  line \<open>key=v\<close> (such as \<open>ETCD_NAME=v\<close>), the recorded member name is \<open>v\<close> and the flag is
  true; in general the recorded name is what follows the first \<open>=\<close> of the output. When
  the marker is absent the name is "etcd-" followed by the host's name and the flag is
  false. When the existence check fails, or the read fails, the step returns that error
  and records nothing: every host's store and the shared state are as before.
\<close>

theorem GetStatus_probe:
  "(FileExist runtime ''/etc/etcd.env'' = (True, None) \<and>
    SudoCmd runtime ''cat /etc/etcd.env | grep ETCD_NAME'' True = (key @ ''='' @ v, None) \<and>
    CHR ''='' \<notin> set key \<longrightarrow>
      fst (GetStatus_Execute runtime w) = None \<and>
      hostCache (snd (GetStatus_Execute runtime w)) (RemoteHost runtime) =
        \<lparr>ETCDName = Some v, ETCDExist = Some True\<rparr>) \<and>
   (FileExist runtime ''/etc/etcd.env'' = (True, None) \<and>
    SudoCmd runtime ''cat /etc/etcd.env | grep ETCD_NAME'' True = (out, None) \<longrightarrow>
      fst (GetStatus_Execute runtime w) = None \<and>
      hostCache (snd (GetStatus_Execute runtime w)) (RemoteHost runtime) =
        \<lparr>ETCDName = Some (drop (nat (strings_Index out ''='' + 1)) out), ETCDExist = Some True\<rparr>) \<and>
   (FileExist runtime ''/etc/etcd.env'' = (False, None) \<longrightarrow>
      fst (GetStatus_Execute runtime w) = None \<and>
      hostCache (snd (GetStatus_Execute runtime w)) (RemoteHost runtime) =
        \<lparr>ETCDName = Some (''etcd-'' @ GetName (RemoteHost runtime)), ETCDExist = Some False\<rparr>) \<and>
   (FileExist runtime ''/etc/etcd.env'' = (b, Some e) \<longrightarrow>
      fst (GetStatus_Execute runtime w) = Some e \<and>
      hostCache (snd (GetStatus_Execute runtime w)) = hostCache w \<and>
      pipelineCache (snd (GetStatus_Execute runtime w)) = pipelineCache w) \<and>
   (FileExist runtime ''/etc/etcd.env'' = (True, None) \<and>
    SudoCmd runtime ''cat /etc/etcd.env | grep ETCD_NAME'' True = (out, Some e) \<longrightarrow>
      fst (GetStatus_Execute runtime w) = Some e \<and>
      hostCache (snd (GetStatus_Execute runtime w)) = hostCache w \<and>
      pipelineCache (snd (GetStatus_Execute runtime w)) = pipelineCache w)"
proof (intro conjI impI)
  assume a: "FileExist runtime ''/etc/etcd.env'' = (True, None) \<and>
    SudoCmd runtime ''cat /etc/etcd.env | grep ETCD_NAME'' True = (key @ ''='' @ v, None) \<and>
    CHR ''='' \<notin> set key"
  from GetStatus_marker_present [of runtime "key @ ''='' @ v" w] a etcdName_of_line [of key v]
  show "fst (GetStatus_Execute runtime w) = None" 
    and "hostCache (snd (GetStatus_Execute runtime w)) (RemoteHost runtime) =
        \<lparr>ETCDName = Some v, ETCDExist = Some True\<rparr>" by simp_all
qed (simp_all add: GetStatus_marker_present GetStatus_marker_absent GetStatus_probe_fails
      GetStatus_read_fails)

theorem GetStatus_probe_witness:
  "FileExist runningNode1 ''/etc/etcd.env'' = (True, None) \<and>
   SudoCmd runningNode1 ''cat /etc/etcd.env | grep ETCD_NAME'' True =
     (''ETCD_NAME'' @ ''='' @ ''etcd-node1'', None) \<and>
   CHR ''='' \<notin> set ''ETCD_NAME'' \<and>
   hostCache (snd (GetStatus_Execute runningNode1 emptyWorld)) (RemoteHost runningNode1) =
     \<lparr>ETCDName = Some ''etcd-node1'', ETCDExist = Some True\<rparr> \<and>
   FileExist freshNode2 ''/etc/etcd.env'' = (False, None) \<and>
   hostCache (snd (GetStatus_Execute freshNode2 emptyWorld)) (RemoteHost freshNode2) =
     \<lparr>ETCDName = Some ''etcd-node2'', ETCDExist = Some False\<rparr> \<and>
   FileExist (failingRuntime node1) ''/etc/etcd.env'' = (False, Some (External ''connection lost'')) \<and>
   fst (GetStatus_Execute (failingRuntime node1) emptyWorld) = Some (External ''connection lost'') \<and>
   hostCache (snd (GetStatus_Execute (failingRuntime node1) emptyWorld)) = hostCache emptyWorld \<and>
   FileExist unreadableNode1 ''/etc/etcd.env'' = (True, None) \<and>
   SudoCmd unreadableNode1 ''cat /etc/etcd.env | grep ETCD_NAME'' True =
     ([], Some (External ''exit status 1'')) \<and>
   fst (GetStatus_Execute unreadableNode1 emptyWorld) = Some (External ''exit status 1'') \<and>
   hostCache (snd (GetStatus_Execute unreadableNode1 emptyWorld)) = hostCache emptyWorld"
proof -
  have a1: "FileExist runningNode1 ''/etc/etcd.env'' = (True, None)"
    by (simp add: runningNode1_def sampleRuntime_def)
  have a2: "SudoCmd runningNode1 ''cat /etc/etcd.env | grep ETCD_NAME'' True =
     (''ETCD_NAME'' @ ''='' @ ''etcd-node1'', None)"
    by (simp add: runningNode1_def sampleRuntime_def)
  have a3: "CHR ''='' \<notin> set ''ETCD_NAME''" by simp
  have b1: "FileExist freshNode2 ''/etc/etcd.env'' = (False, None)"
    by (simp add: freshNode2_def sampleRuntime_def)
  have c1: "FileExist (failingRuntime node1) ''/etc/etcd.env'' =
      (False, Some (External ''connection lost''))"
    by (simp add: failingRuntime_def)
  have d1: "FileExist unreadableNode1 ''/etc/etcd.env'' = (True, None)"
    by (simp add: unreadableNode1_def sampleRuntime_def)
  have d2: "SudoCmd unreadableNode1 ''cat /etc/etcd.env | grep ETCD_NAME'' True =
     ([], Some (External ''exit status 1''))"
    by (simp add: unreadableNode1_def sampleRuntime_def)
  have n2: "GetName (RemoteHost freshNode2) = ''node2''"
    by (simp add: freshNode2_def sampleRuntime_def node2_def mkHost_def)
  from GetStatus_probe [of runningNode1 "''ETCD_NAME''" "''etcd-node1''" emptyWorld] a1 a2 a3
  have r1: "hostCache (snd (GetStatus_Execute runningNode1 emptyWorld)) (RemoteHost runningNode1) =
     \<lparr>ETCDName = Some ''etcd-node1'', ETCDExist = Some True\<rparr>" by blast
  from GetStatus_probe [of freshNode2 _ _ emptyWorld] b1 n2
  have r2: "hostCache (snd (GetStatus_Execute freshNode2 emptyWorld)) (RemoteHost freshNode2) =
     \<lparr>ETCDName = Some ''etcd-node2'', ETCDExist = Some False\<rparr>" by simp
  from GetStatus_probe [of "failingRuntime node1" _ _ emptyWorld _ False "External ''connection lost''"] c1
  have r3: "fst (GetStatus_Execute (failingRuntime node1) emptyWorld) = Some (External ''connection lost'')"
    "hostCache (snd (GetStatus_Execute (failingRuntime node1) emptyWorld)) = hostCache emptyWorld"
    by blast+
  from GetStatus_probe [of unreadableNode1 _ _ emptyWorld "[]" _ "External ''exit status 1''"] d1 d2
  have r4: "fst (GetStatus_Execute unreadableNode1 emptyWorld) = Some (External ''exit status 1'')"
    "hostCache (snd (GetStatus_Execute unreadableNode1 emptyWorld)) = hostCache emptyWorld"
    by blast+
  show ?thesis using a1 a2 a3 b1 c1 d1 d2 r1 r2 r3 r4 by blast
qed

subsection \<open>The health check\<close>

text \<open>
  Claim C9, as the code has it. With the shared state present, HealthCheck issues the
  health command and returns an error exactly when that command returns one (the error
  wrapped with "etcd health check failed"). It does not look at \<open>accessAddresses\<close>: when
  the string is empty the command is issued all the same, with nothing after
  \<open>--endpoints=\<close>, and the step reports what the command reports.
\<close>

theorem HealthCheck_follows_command:
  assumes "pipelineCache w = Some c"
  shows "(fst (HealthCheck_Execute runtime w) = None) =
           (snd (SudoCmd runtime (checkHealthCmd runtime c) False) = None) \<and>
         fst (HealthCheck_Execute runtime w) =
           errors_Wrap (errors_WithStack (snd (SudoCmd runtime (checkHealthCmd runtime c) False)))
              ''etcd health check failed'' \<and>
         trace (snd (HealthCheck_Execute runtime w)) =
           trace w @ [EvSudoCmd (RemoteHost runtime) (checkHealthCmd runtime c) False] \<and>
         checkHealthCmd runtime (c\<lparr>accessAddresses := []\<rparr>) =
           etcdctlEnv (RemoteHost runtime) @ BinDir runtime @
             ''/etcdctl --endpoints= cluster-health | grep -q '' @ [CHR 0x27] @ ''cluster is healthy'' @ [CHR 0x27]"
  using assms
  by (auto simp: HealthCheck_Execute_def healthCheck_def emit_def Let_def errors_Wrap_def
      errors_WithStack_def checkHealthCmd_def split: prod.splits option.splits)

theorem HealthCheck_follows_command_witness:
  "pipelineCache (stateWorld noAddressState) = Some noAddressState \<and>
   fst (HealthCheck_Execute (failingRuntime node1) (stateWorld noAddressState)) =
     Some (WithStack (WithMessage (WithStack (External ''exit status 1'')) ''etcd health check failed''))"
proof -
  have h: "pipelineCache (stateWorld noAddressState) = Some noAddressState"
    by (simp add: stateWorld_def)
  from HealthCheck_follows_command [OF h, of "failingRuntime node1"] h
  show ?thesis by (simp add: failingRuntime_def errors_Wrap_def errors_WithStack_def)
qed

text \<open>
  Claim C9 as stated fails: with an empty \<open>accessAddresses\<close> and a runner whose command
  succeeds, HealthCheck returns \<open>nil\<close>.
\<close>

theorem HealthCheck_empty_addresses_counterexample:
  "accessAddresses noAddressState = [] \<and>
   fst (HealthCheck_Execute (sampleRuntime node1 True []) (stateWorld noAddressState)) = None"
  by code_simp

subsection \<open>The certificate file set\<close>

lemma foldl_append_concat: "foldl (\<lambda>acc x. acc @ f x) acc xs = acc @ concat (map f xs)"
  by (induction xs arbitrary: acc) auto

lemma generateCertsFiles_concat:
  "generateCertsFiles runtime =
     [''ca.pem'', ''ca-key.pem''] @ concat (map memberCerts (GetHostsByRole runtime ETCD))
       @ concat (map nodeCerts (GetHostsByRole runtime Master))"
proof -
  have m: "(\<lambda>certsList host. certsList @ [''admin-'' @ GetName host @ ''.pem'']
                        @ [''admin-'' @ GetName host @ ''-key.pem'']
                        @ [''member-'' @ GetName host @ ''.pem'']
                        @ [''member-'' @ GetName host @ ''-key.pem''])
       = (\<lambda>acc x. acc @ memberCerts x)"
    by (simp add: memberCerts_def fun_eq_iff)
  have n: "(\<lambda>certsList host. certsList @ [''node-'' @ GetName host @ ''.pem'']
                        @ [''node-'' @ GetName host @ ''-key.pem''])
       = (\<lambda>acc x. acc @ nodeCerts x)"
    by (simp add: nodeCerts_def fun_eq_iff)
  show ?thesis
    unfolding generateCertsFiles_def Let_def m n foldl_append_concat by simp
qed

lemma set_generateCertsFiles:
  "set (generateCertsFiles runtime) =
     specDerive (map GetName (GetHostsByRole runtime ETCD)) (map GetName (GetHostsByRole runtime Master))"
  unfolding generateCertsFiles_concat specDerive_def
  by (auto simp: memberCerts_def nodeCerts_def specMemberFiles_def specNodeFiles_def)

lemma mset_generateCertsFiles:
  assumes "mset (GetHostsByRole r1 ETCD) = mset (GetHostsByRole r2 ETCD)"
    and "mset (GetHostsByRole r1 Master) = mset (GetHostsByRole r2 Master)"
  shows "mset (generateCertsFiles r1) = mset (generateCertsFiles r2)"
proof -
  have "mset (concat (map f xs)) = (\<Sum>x\<in>#mset xs. mset (f x))" for f :: "Host \<Rightarrow> string list" and xs
    by (induction xs) auto
  then show ?thesis using assms unfolding generateCertsFiles_concat by simp
qed

lemma length_generateCertsFiles:
  "length (generateCertsFiles runtime) =
     2 + 4 * length (GetHostsByRole runtime ETCD) + 2 * length (GetHostsByRole runtime Master)"
proof -
  have a: "length (concat (map memberCerts xs)) = 4 * length xs" for xs
    by (induction xs) (auto simp: memberCerts_def)
  have b: "length (concat (map nodeCerts xs)) = 2 * length xs" for xs
    by (induction xs) (auto simp: nodeCerts_def)
  show ?thesis unfolding generateCertsFiles_concat by (simp add: a b)
qed

lemma pem_key_eq: "(x @ ''.pem'' = y @ ''-key.pem'') = (x = y @ ''-key'')"
proof -
  have "y @ ''-key.pem'' = (y @ ''-key'') @ ''.pem''" by simp
  then show ?thesis by (simp only: append_same_eq)
qed

lemma key_pem_eq: "(x @ ''-key.pem'' = y @ ''.pem'') = (y = x @ ''-key'')"
  using pem_key_eq [of y x] by auto

lemma distinct_two_one:
  assumes "GetHostsByRole runtime ETCD = [h1, h2]" and "GetHostsByRole runtime Master = [h3]"
    and "GetName h1 \<noteq> GetName h2"
    and "GetName h1 \<noteq> GetName h2 @ ''-key''" and "GetName h2 \<noteq> GetName h1 @ ''-key''"
  shows "distinct (generateCertsFiles runtime)"
proof -
  have e: "generateCertsFiles runtime = 
     [''ca.pem'', ''ca-key.pem''] @ memberCerts h1 @ memberCerts h2 @ nodeCerts h3"
    unfolding generateCertsFiles_concat assms(1,2) by simp
  have neq: "x @ ''.pem'' \<noteq> x @ ''-key.pem''" for x :: string by simp
  show ?thesis unfolding e memberCerts_def nodeCerts_def
    using assms(3-5) by (simp add: pem_key_eq key_pem_eq del: append_assoc)
qed

text \<open>
  Claim C6, as the code has it. The set of names \<open>generateCertsFiles\<close> returns is the set
  the specification describes (the two CA files, four files per member-role host, two per
  control-plane-role host); the list has 2 + 4m + 2n entries; permuting either host list
  leaves the set (and the multiset) of names unchanged. For two member-role hosts and one
  control-plane-role host the 12 names are pairwise distinct provided the two member-role
  hosts have different names and neither name is the other followed by "-key".
\<close>

theorem certs_derivation:
  "set (generateCertsFiles runtime) =
     specDerive (map GetName (GetHostsByRole runtime ETCD))
                (map GetName (GetHostsByRole runtime Master)) \<and>
   length (generateCertsFiles runtime) =
     2 + 4 * length (GetHostsByRole runtime ETCD) + 2 * length (GetHostsByRole runtime Master) \<and>
   (mset (GetHostsByRole runtime ETCD) = mset (GetHostsByRole runtime' ETCD) \<and>
    mset (GetHostsByRole runtime Master) = mset (GetHostsByRole runtime' Master) \<longrightarrow>
      set (generateCertsFiles runtime) = set (generateCertsFiles runtime') \<and>
      mset (generateCertsFiles runtime) = mset (generateCertsFiles runtime')) \<and>
   (GetHostsByRole runtime ETCD = [h1, h2] \<and> GetHostsByRole runtime Master = [h3] \<and>
    GetName h1 \<noteq> GetName h2 \<and> GetName h1 \<noteq> GetName h2 @ ''-key'' \<and>
    GetName h2 \<noteq> GetName h1 @ ''-key'' \<longrightarrow>
      distinct (generateCertsFiles runtime) \<and> card (set (generateCertsFiles runtime)) = 12)"
proof (intro conjI impI)
  show "set (generateCertsFiles runtime) =
     specDerive (map GetName (GetHostsByRole runtime ETCD))
                (map GetName (GetHostsByRole runtime Master))"
    by (rule set_generateCertsFiles)
  show "length (generateCertsFiles runtime) =
     2 + 4 * length (GetHostsByRole runtime ETCD) + 2 * length (GetHostsByRole runtime Master)"
    by (rule length_generateCertsFiles)
next
  assume p: "mset (GetHostsByRole runtime ETCD) = mset (GetHostsByRole runtime' ETCD) \<and>
    mset (GetHostsByRole runtime Master) = mset (GetHostsByRole runtime' Master)"
  show m: "mset (generateCertsFiles runtime) = mset (generateCertsFiles runtime')"
    by (rule mset_generateCertsFiles [OF conjunct1 [OF p] conjunct2 [OF p]])
  from m show "set (generateCertsFiles runtime) = set (generateCertsFiles runtime')"
    by (rule mset_eq_setD)
next
  assume q: "GetHostsByRole runtime ETCD = [h1, h2] \<and> GetHostsByRole runtime Master = [h3] \<and>
    GetName h1 \<noteq> GetName h2 \<and> GetName h1 \<noteq> GetName h2 @ ''-key'' \<and>
    GetName h2 \<noteq> GetName h1 @ ''-key''"
  then have q1: "GetHostsByRole runtime ETCD = [h1, h2]"
    and q2: "GetHostsByRole runtime Master = [h3]"
    and q3: "GetName h1 \<noteq> GetName h2"
    and q4: "GetName h1 \<noteq> GetName h2 @ ''-key''"
    and q5: "GetName h2 \<noteq> GetName h1 @ ''-key''"
    by simp_all
  show d: "distinct (generateCertsFiles runtime)"
    by (rule distinct_two_one [OF q1 q2 q3 q4 q5])
  have "length (generateCertsFiles runtime) = 12"
    unfolding length_generateCertsFiles q1 q2 by simp
  then show "card (set (generateCertsFiles runtime)) = 12"
    using d by (simp add: distinct_card)
qed

theorem certs_derivation_witness:
  "mset (GetHostsByRole (inventoryRuntime [node1, node2] [node3]) ETCD) =
     mset (GetHostsByRole (inventoryRuntime [node2, node1] [node3]) ETCD) \<and>
   mset (GetHostsByRole (inventoryRuntime [node1, node2] [node3]) Master) =
     mset (GetHostsByRole (inventoryRuntime [node2, node1] [node3]) Master) \<and>
   set (generateCertsFiles (inventoryRuntime [node1, node2] [node3])) =
     set (generateCertsFiles (inventoryRuntime [node2, node1] [node3])) \<and>
   GetHostsByRole (inventoryRuntime [node1, node2] [node3]) ETCD = [node1, node2] \<and>
   GetHostsByRole (inventoryRuntime [node1, node2] [node3]) Master = [node3] \<and>
   GetName node1 \<noteq> GetName node2 \<and> GetName node1 \<noteq> GetName node2 @ ''-key'' \<and>
   GetName node2 \<noteq> GetName node1 @ ''-key'' \<and>
   card (set (generateCertsFiles (inventoryRuntime [node1, node2] [node3]))) = 12"
proof -
  have a: "mset (GetHostsByRole (inventoryRuntime [node1, node2] [node3]) ETCD) =
     mset (GetHostsByRole (inventoryRuntime [node2, node1] [node3]) ETCD)"
    by (simp add: inventoryRuntime_def)
  have b: "mset (GetHostsByRole (inventoryRuntime [node1, node2] [node3]) Master) =
     mset (GetHostsByRole (inventoryRuntime [node2, node1] [node3]) Master)"
    by (simp add: inventoryRuntime_def)
  have c: "GetHostsByRole (inventoryRuntime [node1, node2] [node3]) ETCD = [node1, node2]"
    "GetHostsByRole (inventoryRuntime [node1, node2] [node3]) Master = [node3]"
    by (simp_all add: inventoryRuntime_def)
  have d: "GetName node1 \<noteq> GetName node2" "GetName node1 \<noteq> GetName node2 @ ''-key''"
    "GetName node2 \<noteq> GetName node1 @ ''-key''"
    by (simp_all add: node1_def node2_def mkHost_def)
  note T = certs_derivation [of "inventoryRuntime [node1, node2] [node3]"
      "inventoryRuntime [node2, node1] [node3]" node1 node2 node3]
  have s: "set (generateCertsFiles (inventoryRuntime [node1, node2] [node3])) =
     set (generateCertsFiles (inventoryRuntime [node2, node1] [node3]))"
    by (rule conjunct1 [OF mp [OF conjunct1 [OF conjunct2 [OF conjunct2 [OF T]]] conjI [OF a b]]])
  have n: "card (set (generateCertsFiles (inventoryRuntime [node1, node2] [node3]))) = 12"
    by (rule conjunct2 [OF mp [OF conjunct2 [OF conjunct2 [OF conjunct2 [OF T]]]]])
       (intro conjI c d)
  show ?thesis by (intro conjI a b s c d n)
qed

text \<open>
  Claim C6 as stated fails: the member-role hosts node1 and node1-key and one other
  control-plane host give 10 distinct names, since \<open>admin-node1-key.pem\<close> and
  \<open>member-node1-key.pem\<close> are each produced for both hosts.
\<close>

theorem certs_count_counterexample:
  "GetHostsByRole (inventoryRuntime [node1, node1key] [node3]) ETCD = [node1, node1key] \<and>
   GetHostsByRole (inventoryRuntime [node1, node1key] [node3]) Master = [node3] \<and>
   distinct (map GetName [node1, node1key, node3]) \<and>
   card (set (generateCertsFiles (inventoryRuntime [node1, node1key] [node3]))) = 10"
  by code_simp

subsection \<open>The peer list\<close>

lemma GetStatus_ok:
  assumes "probeOK runtime"
  shows "peers (snd (GetStatus_Execute runtime w)) =
           peers w @ (if markerPresent runtime then [entryOf runtime] else [])"
    and "pipelineCache (snd (GetStatus_Execute runtime w)) \<noteq> None"
    and "hostCache (snd (GetStatus_Execute runtime w)) =
           (hostCache w)(RemoteHost runtime := probedCache runtime)"
proof -
  obtain exist err where fe: "FileExist runtime ''/etc/etcd.env'' = (exist, err)"
    by (cases "FileExist runtime ''/etc/etcd.env''")
  obtain out err2 where sc: "SudoCmd runtime ''cat /etc/etcd.env | grep ETCD_NAME'' True = (out, err2)"
    by (cases "SudoCmd runtime ''cat /etc/etcd.env | grep ETCD_NAME'' True")
  have e: "err = None" using assms fe by (simp add: probeOK_def)
  have e2: "exist \<Longrightarrow> err2 = None" using assms fe sc by (simp add: probeOK_def markerPresent_def)
  show "peers (snd (GetStatus_Execute runtime w)) =
           peers w @ (if markerPresent runtime then [entryOf runtime] else [])"
    using fe sc e e2
    by (cases exist)
       (auto simp: GetStatus_Execute_def Let_def emit_def setETCDName_def setETCDExist_def
          peers_def markerPresent_def entryOf_def probedName_def split: option.splits)
  show "pipelineCache (snd (GetStatus_Execute runtime w)) \<noteq> None"
    using fe sc e e2
    by (cases exist)
       (auto simp: GetStatus_Execute_def Let_def emit_def setETCDName_def setETCDExist_def
          split: option.splits)
  show "hostCache (snd (GetStatus_Execute runtime w)) =
           (hostCache w)(RemoteHost runtime := probedCache runtime)"
    using fe sc e e2
    by (cases exist)
       (auto simp: GetStatus_Execute_def Let_def emit_def setETCDName_def setETCDExist_def
          probedCache_def markerPresent_def probedName_def fun_eq_iff split: option.splits)
qed

lemma probes_run_peers:
  assumes "list_all probeOK ps"
  shows "peers (run (map (Pair GetStatus) ps) w) = peers w @ map entryOf (filter markerPresent ps)"
  using assms
proof (induction ps arbitrary: w)
  case Nil
  show ?case by simp
next
  case (Cons p ps)
  then have p: "probeOK p" and ps: "list_all probeOK ps" by simp_all
  show ?case using Cons.IH [OF ps] GetStatus_ok(1) [OF p] by simp
qed

lemma probes_run_hostCache:
  assumes "list_all probeOK ps"
  shows "hostCache (run (map (Pair GetStatus) ps) w) =
           foldl (\<lambda>hc runtime. hc(RemoteHost runtime := probedCache runtime)) (hostCache w) ps"
  using assms
proof (induction ps arbitrary: w)
  case Nil
  show ?case by simp
next
  case (Cons p ps)
  then have p: "probeOK p" and ps: "list_all probeOK ps" by simp_all
  show ?case using Cons.IH [OF ps] GetStatus_ok(3) [OF p] by simp
qed

lemma probes_run_state:
  assumes "list_all probeOK ps" and "ps \<noteq> []"
  shows "pipelineCache (run (map (Pair GetStatus) ps) w) \<noteq> None"
  using assms
proof (induction ps arbitrary: w)
  case Nil
  then show ?case by simp
next
  case (Cons p ps)
  then have p: "probeOK p" and ps: "list_all probeOK ps" by simp_all
  show ?case
  proof (cases "ps = []")
    case True
    then show ?thesis using GetStatus_ok(2) [OF p] by simp
  next
    case False
    then show ?thesis using Cons.IH [OF ps] by simp
  qed
qed

lemma foldl_upd_other:
  "h \<notin> f ` set ps \<Longrightarrow> foldl (\<lambda>hc p. hc(f p := g p)) hc ps h = hc h"
  by (induction ps arbitrary: hc) auto

lemma foldl_upd_distinct:
  "distinct (map f ps) \<Longrightarrow> p \<in> set ps \<Longrightarrow> foldl (\<lambda>hc p. hc(f p := g p)) hc ps (f p) = g p"
proof (induction ps arbitrary: hc)
  case Nil
  then show ?case by simp
next
  case (Cons a ps)
  show ?case
  proof (cases "p \<in> set ps")
    case True
    then show ?thesis using Cons by simp
  next
    case False
    then have pa: "p = a" using Cons.prems by simp
    have "f a \<notin> f ` set ps" using Cons.prems by simp
    then have "foldl (\<lambda>hc p. hc(f p := g p)) (hc(f a := g a)) ps (f a) = (hc(f a := g a)) (f a)"
      by (rule foldl_upd_other)
    also have "\<dots> = g a" by (rule fun_upd_same)
    finally show ?thesis unfolding pa foldl_Cons .
  qed
qed

lemma GenerateConfig_ok:
  assumes "ETCDName (hostCache w (RemoteHost runtime)) = Some n" and "pipelineCache w \<noteq> None"
  shows "peers (snd (GenerateConfig_Execute runtime w)) = peers w @ [peerURL n (RemoteHost runtime)]"
    and "hostCache (snd (GenerateConfig_Execute runtime w)) = hostCache w"
    and "pipelineCache (snd (GenerateConfig_Execute runtime w)) \<noteq> None"
  using assms
  by (auto simp: GenerateConfig_Execute_def refreshConfig_def emit_def Let_def peers_def)

lemma configs_run:
  assumes "pipelineCache w \<noteq> None"
    and "\<forall>c \<in> set cs. ETCDName (hostCache w (RemoteHost c)) = Some (nm c)"
  shows "peers (run (map (Pair GenerateConfig) cs) w) =
           peers w @ map (\<lambda>c. peerURL (nm c) (RemoteHost c)) cs"
  using assms
proof (induction cs arbitrary: w)
  case Nil
  then show ?case by simp
next
  case (Cons c cs)
  let ?w1 = "snd (GenerateConfig_Execute c w)"
  have n: "ETCDName (hostCache w (RemoteHost c)) = Some (nm c)" using Cons.prems(2) by simp
  note ok = GenerateConfig_ok [OF n Cons.prems(1)]
  have "\<forall>c \<in> set cs. ETCDName (hostCache ?w1 (RemoteHost c)) = Some (nm c)"
    using Cons.prems(2) ok(2) by simp
  from Cons.IH [OF ok(3) this] ok(1) show ?case by simp
qed

lemma twoPhase_peers:
  assumes "list_all probeOK ps" and "distinct (map RemoteHost ps)"
    and "pipelineCache w = None" and "set cs \<subseteq> set ps"
  shows "peers (run (twoPhase ps cs) w) = map entryOf (filter markerPresent ps) @ map entryOf cs"
proof (cases "ps = []")
  case True
  then show ?thesis using assms by (simp add: twoPhase_def peers_def)
next
  case False
  let ?w1 = "run (map (Pair GetStatus) ps) w"
  note pr = probes_run_peers [OF assms(1), of w] probes_run_hostCache [OF assms(1), of w]
  have a: "pipelineCache ?w1 \<noteq> None" using probes_run_state [OF assms(1) False] by simp
  have b: "\<forall>c \<in> set cs. ETCDName (hostCache ?w1 (RemoteHost c)) = Some (probedName c)"
  proof
    fix c assume "c \<in> set cs"
    then have "c \<in> set ps" using assms(4) by auto
    from foldl_upd_distinct [OF assms(2) this, of probedCache "hostCache w"]
    show "ETCDName (hostCache ?w1 (RemoteHost c)) = Some (probedName c)"
      unfolding pr(2) by (simp add: probedCache_def)
  qed
  have "peers w = []" using assms(3) by (simp add: peers_def)
  then show ?thesis
    using configs_run [OF a b] pr(1)
    by (simp add: twoPhase_def run_append entryOf_def)
qed

lemma Execute_peers_prefix: "prefix (peers w) (peers (snd (Execute s runtime w)))"
  by (cases s)
     (auto simp: step_defs Let_def peers_def split: option.splits prod.splits)

lemma run_peers_prefix: "prefix (peers w) (peers (run steps w))"
proof (induction steps arbitrary: w)
  case Nil
  show ?case by simp
next
  case (Cons a steps)
  obtain s runtime where a: "a = (s, runtime)" by (cases a)
  show ?case unfolding a using Execute_peers_prefix [of w s runtime] Cons.IH
    by (auto intro: prefix_order.trans)
qed

lemma memberName_peerURL: "CHR ''='' \<notin> set n \<Longrightarrow> memberName (peerURL n h) = n"
proof -
  have "takeWhile (\<lambda>c. c \<noteq> CHR ''='') (n @ CHR ''='' # rest) = n" if "CHR ''='' \<notin> set n" for rest
    using that by (induction n) auto
  then show "CHR ''='' \<notin> set n \<Longrightarrow> memberName (peerURL n h) = n"
    by (simp add: memberName_def peerURL_def)
qed

lemma memberName_entries:
  assumes "\<forall>p \<in> set xs. CHR ''='' \<notin> set (probedName p)"
  shows "map memberName (map entryOf xs) = map probedName xs"
  using assms by (induction xs) (auto simp: entryOf_def memberName_peerURL)

lemma distinct_partition:
  assumes "distinct (map f ps)"
  shows "distinct (map f (filter P ps) @ map f (filter (Not \<circ> P) ps))"
proof -
  have "mset (map f (filter P ps) @ map f (filter (Not \<circ> P) ps)) = mset (map f ps)"
    by (induction ps) auto
  then show ?thesis using assms by (metis mset_eq_imp_distinct_iff)
qed


text \<open>
  Claim C1, as the code has it. Let GetStatus run on N distinct hosts, every probe
  succeeding, from a store without cluster state. GetStatus appends the entry of each
  host whose marker file exists and nothing for the others; each later GenerateConfig
  appends the entry of its host. So when GenerateConfig then runs on every host the list
  has N + k entries, k being the number of hosts with the marker, each of which is listed
  twice; when GenerateConfig runs only on the hosts without the marker (all hosts, when
  no marker exists) the list has exactly N entries, one per host, and the member names in
  it are pairwise distinct provided the recorded names are pairwise distinct and contain
  no \<open>=\<close>. Whatever the steps of a run, the list only grows at its end: the entries present
  before are a prefix of the list afterwards.
\<close>

theorem peerAddresses_accumulation:
  assumes "list_all probeOK ps" and "distinct (map RemoteHost ps)" and "pipelineCache w = None"
  shows "peers (run (twoPhase ps ps) w) = map entryOf (filter markerPresent ps) @ map entryOf ps \<and>
     length (peers (run (twoPhase ps ps) w)) = length ps + length (filter markerPresent ps) \<and>
     peers (run (twoPhase ps (filter (Not \<circ> markerPresent) ps)) w) =
       map entryOf (filter markerPresent ps) @ map entryOf (filter (Not \<circ> markerPresent) ps) \<and>
     length (peers (run (twoPhase ps (filter (Not \<circ> markerPresent) ps)) w)) = length ps \<and>
     (distinct (map probedName ps) \<and> list_all (\<lambda>p. CHR ''='' \<notin> set (probedName p)) ps \<longrightarrow>
        distinct (map memberName (peers (run (twoPhase ps (filter (Not \<circ> markerPresent) ps)) w)))) \<and>
     prefix (peers w') (peers (run steps w'))"
proof -
  have all: "peers (run (twoPhase ps ps) w) = map entryOf (filter markerPresent ps) @ map entryOf ps"
    using twoPhase_peers [OF assms, of ps] by simp
  have part: "peers (run (twoPhase ps (filter (Not \<circ> markerPresent) ps)) w) =
       map entryOf (filter markerPresent ps) @ map entryOf (filter (Not \<circ> markerPresent) ps)"
    using twoPhase_peers [OF assms, of "filter (Not \<circ> markerPresent) ps"] by simp
  have len: "length (filter markerPresent ps) + length (filter (Not \<circ> markerPresent) ps) = length ps"
    using sum_length_filter_compl [of markerPresent ps] by (simp add: comp_def)
  have dis: "distinct (map memberName (peers (run (twoPhase ps (filter (Not \<circ> markerPresent) ps)) w)))"
    if d: "distinct (map probedName ps)" and e: "list_all (\<lambda>p. CHR ''='' \<notin> set (probedName p)) ps"
  proof -
    have e': "\<forall>p \<in> set xs. CHR ''='' \<notin> set (probedName p)" if "set xs \<subseteq> set ps" for xs
      using e that by (auto simp: list_all_iff)
    have m1: "map memberName (map entryOf (filter markerPresent ps)) =
        map probedName (filter markerPresent ps)"
      by (rule memberName_entries [OF e']) simp
    have m2: "map memberName (map entryOf (filter (Not \<circ> markerPresent) ps)) =
        map probedName (filter (Not \<circ> markerPresent) ps)"
      by (rule memberName_entries [OF e']) simp
    have "map memberName (peers (run (twoPhase ps (filter (Not \<circ> markerPresent) ps)) w)) =
        map probedName (filter markerPresent ps) @ map probedName (filter (Not \<circ> markerPresent) ps)"
      unfolding part map_append m1 m2 ..
    then show ?thesis using distinct_partition [OF d] by simp
  qed
  show ?thesis using all part len dis run_peers_prefix by simp
qed

theorem peerAddresses_accumulation_witness:
  "list_all probeOK [runningNode1, freshNode2, freshNode3] \<and>
   distinct (map RemoteHost [runningNode1, freshNode2, freshNode3]) \<and>
   pipelineCache emptyWorld = None \<and>
   distinct (map probedName [runningNode1, freshNode2, freshNode3]) \<and>
   list_all (\<lambda>p. CHR ''='' \<notin> set (probedName p)) [runningNode1, freshNode2, freshNode3] \<and>
   length (peers (run (twoPhase [runningNode1, freshNode2, freshNode3]
       [runningNode1, freshNode2, freshNode3]) emptyWorld)) = 4 \<and>
   length (peers (run (twoPhase [runningNode1, freshNode2, freshNode3]
       (filter (Not \<circ> markerPresent) [runningNode1, freshNode2, freshNode3])) emptyWorld)) = 3 \<and>
   distinct (map memberName (peers (run (twoPhase [runningNode1, freshNode2, freshNode3]
       (filter (Not \<circ> markerPresent) [runningNode1, freshNode2, freshNode3])) emptyWorld)))"
proof -
  have a: "list_all probeOK [runningNode1, freshNode2, freshNode3]" by code_simp
  have b: "distinct (map RemoteHost [runningNode1, freshNode2, freshNode3])"
    by (simp add: sample_defs)
  have c: "pipelineCache emptyWorld = None" by (simp add: emptyWorld_def)
  have d: "distinct (map probedName [runningNode1, freshNode2, freshNode3])" by code_simp
  have e: "list_all (\<lambda>p. CHR ''='' \<notin> set (probedName p)) [runningNode1, freshNode2, freshNode3]"
    by code_simp
  have m: "markerPresent runningNode1" "\<not> markerPresent freshNode2" "\<not> markerPresent freshNode3"
    by (simp_all add: markerPresent_def runningNode1_def freshNode2_def freshNode3_def
        sampleRuntime_def)
  note T = peerAddresses_accumulation [OF a b c, of emptyWorld "[]"]
  have r1: "length (peers (run (twoPhase [runningNode1, freshNode2, freshNode3]
       [runningNode1, freshNode2, freshNode3]) emptyWorld)) = 4"
    using T m by simp
  have r2: "length (peers (run (twoPhase [runningNode1, freshNode2, freshNode3]
       (filter (Not \<circ> markerPresent) [runningNode1, freshNode2, freshNode3])) emptyWorld)) = 3"
    using T by simp
  have r3: "distinct (map memberName (peers (run (twoPhase [runningNode1, freshNode2, freshNode3]
       (filter (Not \<circ> markerPresent) [runningNode1, freshNode2, freshNode3])) emptyWorld)))"
    by (rule mp [OF conjunct1 [OF conjunct2 [OF conjunct2 [OF conjunct2 [OF conjunct2 [OF T]]]]]])
       (intro conjI d e)
  show ?thesis by (intro conjI a b c d e r1 r2 r3)
qed

text \<open>
  Claim C1 as stated fails: one host found running, processed by GetStatus and then by
  GenerateConfig, is listed twice.
\<close>

theorem peerAddresses_duplicate_counterexample:
  "peers (run (twoPhase [runningNode1] [runningNode1]) emptyWorld) =
     [''etcd-node1=https://10.0.0.1:2380'', ''etcd-node1=https://10.0.0.1:2380''] \<and>
   length (peers (run (twoPhase [runningNode1] [runningNode1]) emptyWorld)) = 2 \<and>
   map memberName (peers (run (twoPhase [runningNode1] [runningNode1]) emptyWorld)) =
     [''etcd-node1'', ''etcd-node1'']"
  by code_simp

end
